theory Spec2Isabelle
  imports Complex_Main "HOL-Library.Multiset"
begin

section \<open>Numbers\<close>

text \<open>
  Amounts are columns of type \<open>numeric(15, 2)\<close> and reach the components as finite
  numbers. Following the data model (exact decimal amounts), a finite number is a
  \<^typ>\<open>rat\<close> and sums, differences and products of finite numbers are exact. The one
  operation of the components that leaves the finite numbers is \<open>/\<close>: dividing by
  zero gives \<open>Infinity\<close>, \<open>-Infinity\<close> or \<open>NaN\<close>, so a quotient, and
  everything computed from one, is a \<open>jsnum\<close>.
\<close>

datatype jsnum = Fin rat | PosInf | NegInf | NaN

text \<open>\<open>a / b\<close> on two finite numbers.\<close>

definition js_div :: "rat \<Rightarrow> rat \<Rightarrow> jsnum" where
  "js_div a b =
     (if b \<noteq> 0 then Fin (a / b)
      else if 0 < a then PosInf
      else if a < 0 then NegInf
      else NaN)"

text \<open>\<open>x * c\<close> for a finite constant \<open>c\<close>.\<close>

fun js_mul :: "jsnum \<Rightarrow> rat \<Rightarrow> jsnum" where
  "js_mul (Fin a) c = Fin (a * c)"
| "js_mul PosInf c = (if 0 < c then PosInf else if c < 0 then NegInf else NaN)"
| "js_mul NegInf c = (if 0 < c then NegInf else if c < 0 then PosInf else NaN)"
| "js_mul NaN c = NaN"

text \<open>\<open>x >= c\<close> for a finite constant \<open>c\<close>: every comparison with \<open>NaN\<close> is false.\<close>

fun js_ge :: "jsnum \<Rightarrow> rat \<Rightarrow> bool" where
  "js_ge (Fin a) c = (c \<le> a)"
| "js_ge PosInf c = True"
| "js_ge NegInf c = False"
| "js_ge NaN c = False"

text \<open>\<open>Math.max(c, x)\<close> and \<open>Math.min(x, c)\<close> for a finite constant \<open>c\<close>.\<close>

fun Math_max :: "rat \<Rightarrow> jsnum \<Rightarrow> jsnum" where
  "Math_max c (Fin a) = Fin (max c a)"
| "Math_max c PosInf = PosInf"
| "Math_max c NegInf = Fin c"
| "Math_max c NaN = NaN"

fun Math_min :: "jsnum \<Rightarrow> rat \<Rightarrow> jsnum" where
  "Math_min (Fin a) c = Fin (min a c)"
| "Math_min PosInf c = Fin c"
| "Math_min NegInf c = NegInf"
| "Math_min NaN c = NaN"

section \<open>Rows of the store\<close>

datatype account_type = Cash | Bank | Credit_card | Upi | Investment | Loan_account | Other

datatype transaction_type = Income | Expense | Transfer

datatype transaction_source = Manual | Sms | Ocr | Import | Api

text \<open>A calendar date, with the month counted from 0 as \<open>getMonth()\<close> does.\<close>

record date =
  getFullYear :: int
  getMonth :: int
  getDate :: int

definition date_le :: "date \<Rightarrow> date \<Rightarrow> bool" where
  "date_le d e =
     (getFullYear d < getFullYear e
      \<or> (getFullYear d = getFullYear e
          \<and> (getMonth d < getMonth e
              \<or> (getMonth d = getMonth e \<and> getDate d \<le> getDate e))))"

record account_row =
  acc_id :: string
  acc_user_id :: string
  acc_name :: string
  acc_type :: account_type
  acc_provider :: "string option"
  acc_account_number :: "string option"
  acc_balance :: rat
  acc_currency :: string
  acc_color :: string
  acc_icon :: string
  acc_is_active :: bool
  acc_metadata :: string
  acc_created_at :: string
  acc_updated_at :: string

text \<open>
  A transaction row with the columns the form writes; the remaining columns
  (\<open>receipt_id\<close>, \<open>tags\<close>, \<open>raw_data\<close>, \<open>is_recurring\<close> and the time stamps) take
  their defaults and are read by none of the components below. Of a budget, the period
  and its dates are left out likewise.
\<close>

record transaction_row =
  tx_id :: string
  tx_user_id :: string
  tx_account_id :: string
  tx_category_id :: "string option"
  tx_amount :: rat
  tx_type :: transaction_type
  tx_merchant :: "string option"
  tx_description :: "string option"
  tx_transaction_date :: date
  tx_source :: transaction_source

record budget_row =
  bud_id :: string
  bud_user_id :: string
  bud_category_id :: "string option"
  bud_account_id :: "string option"
  bud_name :: string
  bud_amount :: rat
  bud_alert_at_percentage :: int
  bud_is_active :: bool

record category_row =
  cat_id :: string
  cat_name :: string

record store =
  accounts :: "account_row list"
  transactions :: "transaction_row list"
  budgets :: "budget_row list"
  categories :: "category_row list"

section \<open>Dashboard: the queries of loadDashboardData\<close>

text \<open>
  Each query answers with the selected columns only: the rows of \<open>.select('balance')\<close>
  carry a balance, the rows of \<open>.select('amount, type')\<close> an amount and a type, the
  rows of \<open>.select('amount')\<close> an amount and nothing else. The store is taken to
  answer every query (\<open>data\<close> is never \<open>null\<close>).
\<close>

record balance_row =
  br_balance :: rat

record amount_type_row =
  at_amount :: rat
  at_type :: transaction_type

record amount_row =
  ao_amount :: rat

record budget_sel_row =
  bs_id :: string
  bs_name :: string
  bs_amount :: rat
  bs_category_id :: "string option"

text \<open>
  \<open>new Date(now.getFullYear(), now.getMonth(), 1)\<close>: the first day of the month of
  \<open>now\<close>. Its conversion to a UTC time stamp and the time zone are not modelled.
\<close>

definition startOfMonth :: "date \<Rightarrow> date" where
  "startOfMonth now = \<lparr>getFullYear = getFullYear now, getMonth = getMonth now, getDate = 1\<rparr>"

definition accountsRes :: "store \<Rightarrow> string \<Rightarrow> balance_row list" where
  "accountsRes db uid =
     map (\<lambda>a. \<lparr>br_balance = acc_balance a\<rparr>)
       (filter (\<lambda>a. acc_user_id a = uid \<and> acc_is_active a = True) (accounts db))"

definition transactionsRes :: "store \<Rightarrow> string \<Rightarrow> date \<Rightarrow> amount_type_row list" where
  "transactionsRes db uid som =
     map (\<lambda>t. \<lparr>at_amount = tx_amount t, at_type = tx_type t\<rparr>)
       (filter (\<lambda>t. tx_user_id t = uid \<and> date_le som (tx_transaction_date t)) (transactions db))"

definition budgetsRes :: "store \<Rightarrow> string \<Rightarrow> budget_sel_row list" where
  "budgetsRes db uid =
     map (\<lambda>b. \<lparr>bs_id = bud_id b, bs_name = bud_name b, bs_amount = bud_amount b,
                bs_category_id = bud_category_id b\<rparr>)
       (filter (\<lambda>b. bud_user_id b = uid \<and> bud_is_active b = True) (budgets db))"

definition expenseRes :: "store \<Rightarrow> string \<Rightarrow> date \<Rightarrow> amount_row list" where
  "expenseRes db uid som =
     map (\<lambda>t. \<lparr>ao_amount = tx_amount t\<rparr>)
       (filter (\<lambda>t. tx_user_id t = uid \<and> tx_type t = Expense
                    \<and> date_le som (tx_transaction_date t)) (transactions db))"

section \<open>Dashboard: the statistics\<close>

record DashboardStats =
  totalBalance :: rat
  monthlyIncome :: rat
  monthlyExpense :: rat
  savingsRate :: jsnum

record BudgetAlert =
  ba_id :: string
  ba_name :: string
  ba_spent :: rat
  ba_limit :: rat
  ba_percentage :: jsnum

record dashboard =
  stats :: DashboardStats
  budgetAlerts :: "BudgetAlert list"
  loading :: bool

definition totalBalance_of :: "balance_row list \<Rightarrow> rat" where
  "totalBalance_of data = foldl (\<lambda>sum acc. sum + br_balance acc) 0 data"

definition income_of :: "amount_type_row list \<Rightarrow> rat" where
  "income_of data = foldl (\<lambda>sum t. sum + at_amount t) 0 (filter (\<lambda>t. at_type t = Income) data)"

definition expense_of :: "amount_type_row list \<Rightarrow> rat" where
  "expense_of data = foldl (\<lambda>sum t. sum + at_amount t) 0 (filter (\<lambda>t. at_type t = Expense) data)"

definition savingsRate_of :: "rat \<Rightarrow> rat \<Rightarrow> jsnum" where
  "savingsRate_of income expense =
     (let savingsRate = (if 0 < income then js_mul (js_div (income - expense) income) 100 else Fin 0)
      in Math_max 0 savingsRate)"

subsection \<open>Budget alerts\<close>

text \<open>
  The values a property read can give where the budget loop compares category ids:
  a string, \<open>null\<close>, or \<open>undefined\<close> for a property the row does not have.
\<close>

datatype jsval = Undefined | Null | Str string

definition column :: "string option \<Rightarrow> jsval" where
  "column c = (case c of None \<Rightarrow> Null | Some s \<Rightarrow> Str s)"

text \<open>Truthiness of a nullable string: \<open>null\<close> and the empty string are falsy.\<close>

definition truthy :: "string option \<Rightarrow> bool" where
  "truthy c = (case c of None \<Rightarrow> False | Some s \<Rightarrow> s \<noteq> [])"

text \<open>
  \<open>t.category_id\<close> on a row of \<open>.select('amount')\<close>: the row has no such property.
\<close>

definition ao_category_id :: "amount_row \<Rightarrow> jsval" where
  "ao_category_id t = Undefined"

definition spent_of :: "amount_row list \<Rightarrow> budget_sel_row \<Rightarrow> rat" where
  "spent_of txns budget =
     (if truthy (bs_category_id budget)
      then foldl (\<lambda>sum t. sum + ao_amount t) 0
             (filter (\<lambda>t. ao_category_id t = column (bs_category_id budget)) txns)
      else foldl (\<lambda>sum t. sum + ao_amount t) 0 txns)"

definition percentage_of :: "rat \<Rightarrow> budget_sel_row \<Rightarrow> jsnum" where
  "percentage_of spent budget = js_mul (js_div spent (bs_amount budget)) 100"

fun alerts_loop ::
  "store \<Rightarrow> string \<Rightarrow> date \<Rightarrow> budget_sel_row list \<Rightarrow> BudgetAlert list \<Rightarrow> BudgetAlert list" where
  "alerts_loop db uid som [] alerts = alerts"
| "alerts_loop db uid som (budget # rest) alerts =
     (let txns = expenseRes db uid som;
          spent = spent_of txns budget;
          percentage = percentage_of spent budget
      in alerts_loop db uid som rest
           (if js_ge percentage 80
            then alerts @ [\<lparr>ba_id = bs_id budget, ba_name = bs_name budget, ba_spent = spent,
                             ba_limit = bs_amount budget, ba_percentage = percentage\<rparr>]
            else alerts))"

text \<open>
  \<open>loadDashboardData\<close>, on the part of the component state that holds the statistics
  and the alerts (the recent transactions and the upcoming subscriptions are lists shown
  as fetched).
\<close>

definition loadDashboardData :: "store \<Rightarrow> string option \<Rightarrow> date \<Rightarrow> dashboard \<Rightarrow> dashboard" where
  "loadDashboardData db user now st =
     (case user of
        None \<Rightarrow> st
      | Some uid \<Rightarrow>
          (let som = startOfMonth now;
               data = transactionsRes db uid som;
               income = income_of data;
               expense = expense_of data
           in st\<lparr>stats := \<lparr>totalBalance = totalBalance_of (accountsRes db uid),
                             monthlyIncome = income,
                             monthlyExpense = expense,
                             savingsRate = savingsRate_of income expense\<rparr>,
                   budgetAlerts := alerts_loop db uid som (budgetsRes db uid) [],
                   loading := False\<rparr>))"

section \<open>Accounts: the total of the account list\<close>


section \<open>Loans\<close>

record loan_row =
  loan_id :: string
  loan_name :: string
  principal_amount :: rat
  remaining_amount :: rat
  interest_rate :: "rat option"
  emi_amount :: "rat option"
  emi_day :: "int option"
  start_date :: date
  end_date :: "date option"
  lender :: "string option"
  loan_type :: "string option"


definition loanProgress :: "loan_row \<Rightarrow> jsnum" where
  "loanProgress loan =
     js_mul (js_div (principal_amount loan - remaining_amount loan) (principal_amount loan)) 100"

text \<open>
  The card prints \<open>loanProgress.toFixed(0)\<close> as its label and draws a bar of width
  \<open>Math.min(loanProgress, 100)\<close> per cent.
\<close>

definition bar_width :: "loan_row \<Rightarrow> jsnum" where
  "bar_width loan = Math_min (loanProgress loan) 100"

section \<open>AddTransactionModal: recording a transaction\<close>

datatype form_type = Form_expense | Form_income

record form =
  f_user :: "string option"
  f_type :: form_type
  f_amount :: string
  f_accountId :: string
  f_categoryId :: string
  f_merchant :: string
  f_description :: string
  f_date :: date

datatype outcome = Returned | Failed | Succeeded

text \<open>\<open>s || null\<close> on a string.\<close>

definition or_null :: "string \<Rightarrow> string option" where
  "or_null s = (if s = [] then None else Some s)"

definition type_column :: "form_type \<Rightarrow> transaction_type" where
  "type_column t = (case t of Form_expense \<Rightarrow> Expense | Form_income \<Rightarrow> Income)"

text \<open>
  The store's side of the three requests, from the schema: an inserted transaction must
  reference an existing account and, when it has a category, an existing category; a
  signed-in user reads and updates only the accounts whose \<open>user_id\<close> is their own;
  \<open>.single()\<close> gives a row when exactly one matches. The update sets the one column it
  names (the schema has no trigger).
\<close>

definition insert_transaction :: "store \<Rightarrow> transaction_row \<Rightarrow> store option" where
  "insert_transaction db t =
     (if tx_account_id t \<in> set (map acc_id (accounts db))
         \<and> (case tx_category_id t of None \<Rightarrow> True | Some c \<Rightarrow> c \<in> set (map cat_id (categories db)))
      then Some (db\<lparr>transactions := transactions db @ [t]\<rparr>)
      else None)"

definition select_balance_single :: "store \<Rightarrow> string \<Rightarrow> string \<Rightarrow> balance_row option" where
  "select_balance_single db uid accountId =
     (case filter (\<lambda>a. acc_user_id a = uid \<and> acc_id a = accountId) (accounts db) of
        [a] \<Rightarrow> Some \<lparr>br_balance = acc_balance a\<rparr>
      | _ \<Rightarrow> None)"

definition update_balance :: "store \<Rightarrow> string \<Rightarrow> string \<Rightarrow> rat \<Rightarrow> store" where
  "update_balance db uid accountId newBalance =
     db\<lparr>accounts :=
          map (\<lambda>a. if acc_user_id a = uid \<and> acc_id a = accountId
                    then a\<lparr>acc_balance := newBalance\<rparr> else a) (accounts db)\<rparr>"

text \<open>
  \<open>handleSubmit\<close>. \<open>parseFloat\<close> is a parameter: the amount comes from a number
  input, whose non-empty value is a decimal numeral, and is read as the finite number it
  denotes. \<open>new_id\<close> is the identifier the store gives the new row.
\<close>

definition handleSubmit ::
  "(string \<Rightarrow> rat) \<Rightarrow> string \<Rightarrow> form \<Rightarrow> store \<Rightarrow> store \<times> outcome" where
  "handleSubmit parseFloat new_id fm db =
     (case f_user fm of
        None \<Rightarrow> (db, Returned)
      | Some uid \<Rightarrow>
          if f_accountId fm = [] \<or> f_amount fm = [] then (db, Returned)
          else
            (case insert_transaction db
                    \<lparr>tx_id = new_id, tx_user_id = uid, tx_account_id = f_accountId fm,
                     tx_category_id = or_null (f_categoryId fm),
                     tx_amount = parseFloat (f_amount fm), tx_type = type_column (f_type fm),
                     tx_merchant = or_null (f_merchant fm),
                     tx_description = or_null (f_description fm),
                     tx_transaction_date = f_date fm, tx_source = Manual\<rparr> of
               None \<Rightarrow> (db, Failed)
             | Some db1 \<Rightarrow>
                 (case select_balance_single db1 uid (f_accountId fm) of
                    None \<Rightarrow> (db1, Succeeded)
                  | Some accountData \<Rightarrow>
                      (let currentBalance = br_balance accountData;
                           newBalance = (if f_type fm = Form_income
                                         then currentBalance + parseFloat (f_amount fm)
                                         else currentBalance - parseFloat (f_amount fm))
                       in (update_balance db1 uid (f_accountId fm) newBalance, Succeeded)))))"

section \<open>Scenario data\<close>

text \<open>
  Concrete rows for the scenarios. \<open>initial_dashboard\<close> is the state the Dashboard
  component starts in; the other columns take the defaults of the schema.
\<close>

definition initial_dashboard :: dashboard where
  "initial_dashboard =
     \<lparr>stats = \<lparr>totalBalance = 0, monthlyIncome = 0, monthlyExpense = 0, savingsRate = Fin 0\<rparr>,
      budgetAlerts = [], loading = True\<rparr>"

definition an_account :: "string \<Rightarrow> string \<Rightarrow> rat \<Rightarrow> bool \<Rightarrow> account_row" where
  "an_account i u b act =
     \<lparr>acc_id = i, acc_user_id = u, acc_name = ''Wallet'', acc_type = Bank, acc_provider = None,
      acc_account_number = None, acc_balance = b, acc_currency = ''INR'', acc_color = ''#10b981'',
      acc_icon = ''card'', acc_is_active = act, acc_metadata = ''{}'',
      acc_created_at = ''2026-01-01'', acc_updated_at = ''2026-01-01''\<rparr>"

definition a_transaction ::
  "string \<Rightarrow> string \<Rightarrow> string option \<Rightarrow> rat \<Rightarrow> transaction_type \<Rightarrow> date \<Rightarrow> transaction_row" where
  "a_transaction i u c amt ty d =
     \<lparr>tx_id = i, tx_user_id = u, tx_account_id = ''a1'', tx_category_id = c, tx_amount = amt,
      tx_type = ty, tx_merchant = None, tx_description = None, tx_transaction_date = d,
      tx_source = Manual\<rparr>"

definition a_budget :: "string \<Rightarrow> string \<Rightarrow> string option \<Rightarrow> rat \<Rightarrow> int \<Rightarrow> bool \<Rightarrow> budget_row" where
  "a_budget i u c amt pct act =
     \<lparr>bud_id = i, bud_user_id = u, bud_category_id = c, bud_account_id = None,
      bud_name = ''Monthly'', bud_amount = amt, bud_alert_at_percentage = pct,
      bud_is_active = act\<rparr>"

definition a_loan :: "rat \<Rightarrow> rat \<Rightarrow> date option \<Rightarrow> loan_row" where
  "a_loan p r e =
     \<lparr>loan_id = ''l1'', loan_name = ''Home loan'', principal_amount = p, remaining_amount = r,
      interest_rate = None, emi_amount = None, emi_day = None,
      start_date = \<lparr>getFullYear = 2026, getMonth = 0, getDate = 1\<rparr>, end_date = e,
      lender = None, loan_type = None\<rparr>"

definition a_date :: "int \<Rightarrow> int \<Rightarrow> int \<Rightarrow> date" where
  "a_date y m d = \<lparr>getFullYear = y, getMonth = m, getDate = d\<rparr>"

definition a_store :: "account_row list \<Rightarrow> transaction_row list \<Rightarrow> budget_row list \<Rightarrow> store" where
  "a_store as ts bs =
     \<lparr>accounts = as, transactions = ts, budgets = bs,
      categories = [\<lparr>cat_id = ''c1'', cat_name = ''Food''\<rparr>]\<rparr>"

definition a_form :: "form_type \<Rightarrow> string \<Rightarrow> string \<Rightarrow> form" where
  "a_form ty amt acc =
     \<lparr>f_user = Some ''u1'', f_type = ty, f_amount = amt, f_accountId = acc, f_categoryId = ''c1'',
      f_merchant = ''Cafe'', f_description = [],
      f_date = \<lparr>getFullYear = 2026, getMonth = 10, getDate = 2\<rparr>\<rparr>"

text \<open>The number denoted by the amount the scenario types into the form.\<close>

definition read_amount :: "string \<Rightarrow> rat" where
  "read_amount s = (if s = ''150'' then 150 else 0)"

section \<open>The specification's wording\<close>



text \<open>The payoff percentage clamped to the interval from 0 to 100.\<close>

definition claimed_payoff_percentage :: "loan_row \<Rightarrow> jsnum" where
  "claimed_payoff_percentage loan =
     Fin (max 0 (min 100
       ((principal_amount loan - remaining_amount loan) / principal_amount loan * 100)))"


text \<open>An alert at the budget's own threshold.\<close>

definition claimed_alert :: "budget_row \<Rightarrow> jsnum \<Rightarrow> bool" where
  "claimed_alert b percentage = js_ge percentage (of_int (bud_alert_at_percentage b))"

text \<open>The month's expenses in the budget's category, or all of them when it has none.\<close>

definition claimed_spent :: "store \<Rightarrow> string \<Rightarrow> date \<Rightarrow> budget_row \<Rightarrow> rat" where
  "claimed_spent db uid som b =
     sum_list (map tx_amount
       (filter (\<lambda>t. tx_user_id t = uid \<and> tx_type t = Expense
                    \<and> date_le som (tx_transaction_date t)
                    \<and> (case bud_category_id b of None \<Rightarrow> True
                        | Some c \<Rightarrow> tx_category_id t = Some c)) (transactions db)))"

section \<open>Helper lemmas\<close>

lemmas dashboard_defs = loadDashboardData_def accountsRes_def transactionsRes_def budgetsRes_def
  expenseRes_def totalBalance_of_def income_of_def expense_of_def savingsRate_of_def spent_of_def
  percentage_of_def startOfMonth_def date_le_def js_div_def truthy_def column_def ao_category_id_def












lemma loanProgress_finite:
  "principal_amount loan \<noteq> 0 \<Longrightarrow>
   loanProgress loan =
     Fin ((principal_amount loan - remaining_amount loan) / principal_amount loan * 100)"
  by (simp add: loanProgress_def js_div_def)

lemma filter_own_account:
  "distinct (map acc_id xs) \<Longrightarrow> a \<in> set xs \<Longrightarrow>
   filter (\<lambda>x. acc_user_id x = acc_user_id a \<and> acc_id x = acc_id a) xs = [a]"
proof (induction xs)
  case Nil
  then show ?case by simp
next
  case (Cons x xs)
  show ?case
  proof (cases "x = a")
    case True
    have "acc_id y \<noteq> acc_id a" if "y \<in> set xs" for y
      using Cons.prems(1) True that by (auto simp: image_iff)
    then have "filter (\<lambda>x. acc_user_id x = acc_user_id a \<and> acc_id x = acc_id a) xs = []"
      by (simp add: filter_empty_conv)
    then show ?thesis using True by simp
  next
    case False
    then have mem: "a \<in> set xs" using Cons.prems(2) by simp
    then have "acc_id x \<noteq> acc_id a" using Cons.prems(1) by (auto simp: image_iff)
    moreover have "filter (\<lambda>x. acc_user_id x = acc_user_id a \<and> acc_id x = acc_id a) xs = [a]"
      using Cons.IH Cons.prems(1) mem by simp
    ultimately show ?thesis by simp
  qed
qed

lemma filter_after_update:
  "filter (\<lambda>x. acc_user_id x = u \<and> acc_id x = i)
     (map (\<lambda>a. if acc_user_id a = u \<and> acc_id a = i then a\<lparr>acc_balance := nb\<rparr> else a) xs) =
   map (\<lambda>a. a\<lparr>acc_balance := nb\<rparr>) (filter (\<lambda>x. acc_user_id x = u \<and> acc_id x = i) xs)"
  by (induction xs) simp_all

lemma select_after_update:
  assumes "distinct (map acc_id (accounts db))" "a \<in> set (accounts db)"
  shows "select_balance_single (update_balance db (acc_user_id a) (acc_id a) nb)
           (acc_user_id a) (acc_id a) = Some \<lparr>br_balance = nb\<rparr>"
  using filter_own_account [OF assms]
  by (simp add: select_balance_single_def update_balance_def filter_after_update)

lemma select_own_account:
  assumes "distinct (map acc_id (accounts db))" "a \<in> set (accounts db)"
  shows "select_balance_single db (acc_user_id a) (acc_id a) = Some \<lparr>br_balance = acc_balance a\<rparr>"
  using filter_own_account [OF assms] by (simp add: select_balance_single_def)

lemma accounts_insert_transaction:
  "insert_transaction db t = Some db1 \<Longrightarrow> accounts db1 = accounts db"
  by (auto simp: insert_transaction_def split: if_splits)

lemma accounts_handleSubmit:
  "accounts (fst (handleSubmit parseFloat new_id fm db)) = accounts db
   \<or> (\<exists>uid nb. accounts (fst (handleSubmit parseFloat new_id fm db)) =
         map (\<lambda>a. if acc_user_id a = uid \<and> acc_id a = f_accountId fm
                   then a\<lparr>acc_balance := nb\<rparr> else a) (accounts db))"
  by (auto simp: handleSubmit_def Let_def update_balance_def insert_transaction_def
           split: option.splits if_splits)

lemma others_handleSubmit:
  "budgets (fst (handleSubmit parseFloat new_id fm db)) = budgets db
   \<and> categories (fst (handleSubmit parseFloat new_id fm db)) = categories db"
  by (auto simp: handleSubmit_def Let_def update_balance_def insert_transaction_def
           split: option.splits if_splits)




section \<open>Total balance\<close>



section \<open>Savings rate\<close>



section \<open>Monthly income and expense\<close>




section \<open>Budget alerts\<close>

text \<open>
  C1. A budget with limit 1000 and its own threshold at 50 per cent, and 600 spent in
  the month: the spend is 60 per cent, at or above the budget's threshold, and the
  dashboard raises no alert, since it compares with 80.
\<close>

theorem hardcoded_threshold_at_failing_input:
  "budgetAlerts (loadDashboardData
      (a_store [] [a_transaction ''t1'' ''u1'' None 600 Expense (a_date 2026 10 2)]
                  [a_budget ''b1'' ''u1'' None 1000 50 True])
      (Some ''u1'') (a_date 2026 10 2) initial_dashboard) = []
   \<and> percentage_of
        (spent_of (expenseRes
           (a_store [] [a_transaction ''t1'' ''u1'' None 600 Expense (a_date 2026 10 2)]
                       [a_budget ''b1'' ''u1'' None 1000 50 True]) ''u1'' (a_date 2026 10 1))
           \<lparr>bs_id = ''b1'', bs_name = ''Monthly'', bs_amount = 1000, bs_category_id = None\<rparr>)
        \<lparr>bs_id = ''b1'', bs_name = ''Monthly'', bs_amount = 1000, bs_category_id = None\<rparr> = Fin 60
   \<and> claimed_alert (a_budget ''b1'' ''u1'' None 1000 50 True) (Fin 60)"
  by (simp add: a_store_def a_transaction_def a_budget_def a_date_def initial_dashboard_def dashboard_defs claimed_alert_def)

text \<open>
  C2. A budget of 1000 on category \<open>c1\<close> and one expense of 850 in that category in the
  month: the rows the loop filters carry no category, none of them matches, and the
  amount spent comes out as 0 where the expenses of the category sum to 850.
\<close>

theorem category_budget_spent_at_failing_input:
  "budgetAlerts (loadDashboardData
      (a_store [] [a_transaction ''t1'' ''u1'' (Some ''c1'') 850 Expense (a_date 2026 10 2)]
                  [a_budget ''b1'' ''u1'' (Some ''c1'') 1000 80 True])
      (Some ''u1'') (a_date 2026 10 2) initial_dashboard) = []
   \<and> spent_of (expenseRes
           (a_store [] [a_transaction ''t1'' ''u1'' (Some ''c1'') 850 Expense (a_date 2026 10 2)]
                       [a_budget ''b1'' ''u1'' (Some ''c1'') 1000 80 True]) ''u1'' (a_date 2026 10 1))
           \<lparr>bs_id = ''b1'', bs_name = ''Monthly'', bs_amount = 1000, bs_category_id = Some ''c1''\<rparr> = 0
   \<and> claimed_spent
        (a_store [] [a_transaction ''t1'' ''u1'' (Some ''c1'') 850 Expense (a_date 2026 10 2)]
                    [a_budget ''b1'' ''u1'' (Some ''c1'') 1000 80 True]) ''u1'' (a_date 2026 10 1)
        (a_budget ''b1'' ''u1'' (Some ''c1'') 1000 80 True) = 850"
  by (simp add: a_store_def a_transaction_def a_budget_def a_date_def initial_dashboard_def dashboard_defs claimed_spent_def)

section \<open>Loans\<close>



text \<open>
  C5, as amended. For a loan whose principal is not 0, the payoff percentage is
  \<open>(principal - remaining) / principal * 100\<close> and the bar is drawn at that percentage
  capped at 100; when the remaining amount lies between 0 and a positive principal the
  percentage lies between 0 and 100 and is the clamped value.
\<close>

theorem bar_width_capped_above:
  assumes "principal_amount loan \<noteq> 0"
  shows "let pct = (principal_amount loan - remaining_amount loan) / principal_amount loan * 100
         in loanProgress loan = Fin pct
            \<and> bar_width loan = Fin (min pct 100)
            \<and> (0 < principal_amount loan \<and> 0 \<le> remaining_amount loan
                 \<and> remaining_amount loan \<le> principal_amount loan
               \<longrightarrow> 0 \<le> pct \<and> pct \<le> 100 \<and> bar_width loan = Fin pct
                   \<and> bar_width loan = claimed_payoff_percentage loan)"
proof -
  define p where "p = principal_amount loan"
  define r where "r = remaining_amount loan"
  have lp: "loanProgress loan = Fin ((p - r) / p * 100)"
    using assms by (simp add: loanProgress_finite p_def r_def)
  have bw: "bar_width loan = Fin (min ((p - r) / p * 100) 100)"
    by (simp add: bar_width_def lp)
  have rng: "0 \<le> (p - r) / p * 100 \<and> (p - r) / p * 100 \<le> 100" if "0 < p" "0 \<le> r" "r \<le> p"
    using that by (simp add: field_simps)
  show ?thesis
    using lp bw rng
    by (auto simp: Let_def p_def [symmetric] r_def [symmetric] claimed_payoff_percentage_def
          min_def max_def)
qed

theorem bar_width_capped_above_witness:
  "principal_amount (a_loan 100000 40000 None) \<noteq> 0
   \<and> (0 < principal_amount (a_loan 100000 40000 None) \<and> 0 \<le> remaining_amount (a_loan 100000 40000 None)
       \<and> remaining_amount (a_loan 100000 40000 None) \<le> principal_amount (a_loan 100000 40000 None))
   \<and> loanProgress (a_loan 100000 40000 None) = Fin 60
   \<and> bar_width (a_loan 100000 40000 None) = Fin 60"
  using bar_width_capped_above [of "a_loan 100000 40000 None"]
  by (simp add: a_loan_def Let_def)

text \<open>
  A loan whose remaining amount exceeds its principal: the percentage and the width of
  the bar are negative, not 0.
\<close>

theorem payoff_not_clamped_below_counterexample:
  "bar_width (a_loan 100 150 None) = Fin (- 50)
   \<and> loanProgress (a_loan 100 150 None) = Fin (- 50)
   \<and> claimed_payoff_percentage (a_loan 100 150 None) = Fin 0
   \<and> bar_width (a_loan 100 150 None) \<noteq> claimed_payoff_percentage (a_loan 100 150 None)"
  by (simp add: a_loan_def bar_width_def loanProgress_def js_div_def claimed_payoff_percentage_def)

text \<open>
  C6. The savings rate of a month without income is 0, but the payoff percentage of a
  loan with principal 0 is \<open>NaN\<close> (nothing remaining) or \<open>-Infinity\<close> (something
  remaining): that division has no guard.
\<close>

theorem zero_principal_not_guarded:
  "loanProgress (a_loan 0 0 None) = NaN
   \<and> bar_width (a_loan 0 0 None) = NaN
   \<and> loanProgress (a_loan 0 5000 None) = NegInf
   \<and> savingsRate_of 0 2000 = Fin 0"
  by (simp add: a_loan_def bar_width_def loanProgress_def js_div_def savingsRate_of_def)

section \<open>Recording a transaction\<close>

text \<open>
  C3. When a signed-in user submits the form with an amount \<open>A\<close> for one of their
  accounts, whose balance is \<open>B\<close>, the submission succeeds and the stored balance of
  the account is then \<open>B + A\<close> for an income and \<open>B - A\<close> for an expense; an expense
  of 150 on a balance of 1000 leaves 850.
\<close>

theorem handleSubmit_balance:
  assumes user: "f_user fm = Some uid"
    and filled: "f_accountId fm \<noteq> []" "f_amount fm \<noteq> []"
    and key: "distinct (map acc_id (accounts db))"
    and acct: "a \<in> set (accounts db)" "acc_id a = f_accountId fm" "acc_user_id a = uid"
    and cat: "f_categoryId fm = [] \<or> f_categoryId fm \<in> set (map cat_id (categories db))"
  shows "snd (handleSubmit parseFloat new_id fm db) = Succeeded
         \<and> select_balance_single (fst (handleSubmit parseFloat new_id fm db)) uid (f_accountId fm) =
             Some \<lparr>br_balance = (if f_type fm = Form_income
                                 then acc_balance a + parseFloat (f_amount fm)
                                 else acc_balance a - parseFloat (f_amount fm))\<rparr>"
proof -
  let ?t = "\<lparr>tx_id = new_id, tx_user_id = uid, tx_account_id = f_accountId fm,
             tx_category_id = or_null (f_categoryId fm),
             tx_amount = parseFloat (f_amount fm), tx_type = type_column (f_type fm),
             tx_merchant = or_null (f_merchant fm),
             tx_description = or_null (f_description fm),
             tx_transaction_date = f_date fm, tx_source = Manual\<rparr>"
  let ?db1 = "db\<lparr>transactions := transactions db @ [?t]\<rparr>"
  let ?nb = "if f_type fm = Form_income
             then acc_balance a + parseFloat (f_amount fm)
             else acc_balance a - parseFloat (f_amount fm)"
  have ref: "f_accountId fm \<in> set (map acc_id (accounts db))"
    using acct by force
  have ins: "insert_transaction db ?t = Some ?db1"
    using ref cat by (auto simp: insert_transaction_def or_null_def)
  have key1: "distinct (map acc_id (accounts ?db1))" and mem1: "a \<in> set (accounts ?db1)"
    using key acct by simp_all
  have sel: "select_balance_single ?db1 uid (f_accountId fm) = Some \<lparr>br_balance = acc_balance a\<rparr>"
    using select_own_account [OF key1 mem1] acct by simp
  have run: "handleSubmit parseFloat new_id fm db =
               (update_balance ?db1 uid (f_accountId fm) ?nb, Succeeded)"
    using user filled ins sel by (simp add: handleSubmit_def Let_def)
  have "select_balance_single (update_balance ?db1 uid (f_accountId fm) ?nb) uid (f_accountId fm) =
          Some \<lparr>br_balance = ?nb\<rparr>"
    using select_after_update [OF key1 mem1, of ?nb] acct by simp
  then show ?thesis by (simp only: run fst_conv snd_conv simp_thms)
qed

theorem handleSubmit_balance_witness:
  "f_user (a_form Form_expense ''150'' ''a1'') = Some ''u1''
   \<and> f_accountId (a_form Form_expense ''150'' ''a1'') \<noteq> []
   \<and> f_amount (a_form Form_expense ''150'' ''a1'') \<noteq> []
   \<and> distinct (map acc_id (accounts (a_store [an_account ''a1'' ''u1'' 1000 True] [] [])))
   \<and> an_account ''a1'' ''u1'' 1000 True \<in> set (accounts (a_store [an_account ''a1'' ''u1'' 1000 True] [] []))
   \<and> acc_id (an_account ''a1'' ''u1'' 1000 True) = f_accountId (a_form Form_expense ''150'' ''a1'')
   \<and> acc_user_id (an_account ''a1'' ''u1'' 1000 True) = ''u1''
   \<and> f_categoryId (a_form Form_expense ''150'' ''a1'')
        \<in> set (map cat_id (categories (a_store [an_account ''a1'' ''u1'' 1000 True] [] [])))
   \<and> select_balance_single
        (fst (handleSubmit read_amount ''t1'' (a_form Form_expense ''150'' ''a1'')
               (a_store [an_account ''a1'' ''u1'' 1000 True] [] [])))
        ''u1'' ''a1'' = Some \<lparr>br_balance = 850\<rparr>"
  using handleSubmit_balance
    [of "a_form Form_expense ''150'' ''a1''" "''u1''"
        "a_store [an_account ''a1'' ''u1'' 1000 True] [] []"
        "an_account ''a1'' ''u1'' 1000 True" read_amount "''t1''"]
  by (simp add: a_store_def an_account_def a_form_def read_amount_def)

text \<open>
  C10. Submitting the form leaves the list of accounts as long as it was; every account
  other than the one the form names is unchanged, the named one differs at most in its
  balance, and budgets and categories are untouched.
\<close>

theorem handleSubmit_frame:
  "length (accounts (fst (handleSubmit parseFloat new_id fm db))) = length (accounts db)
   \<and> (\<forall>i < length (accounts db).
         (acc_id (accounts db ! i) \<noteq> f_accountId fm \<longrightarrow>
            accounts (fst (handleSubmit parseFloat new_id fm db)) ! i = accounts db ! i)
         \<and> (accounts (fst (handleSubmit parseFloat new_id fm db)) ! i)
               \<lparr>acc_balance := acc_balance (accounts db ! i)\<rparr> = accounts db ! i)
   \<and> budgets (fst (handleSubmit parseFloat new_id fm db)) = budgets db
   \<and> categories (fst (handleSubmit parseFloat new_id fm db)) = categories db"
proof -
  let ?acs = "accounts (fst (handleSubmit parseFloat new_id fm db))"
  have "length ?acs = length (accounts db)
        \<and> (\<forall>i < length (accounts db).
         (acc_id (accounts db ! i) \<noteq> f_accountId fm \<longrightarrow> ?acs ! i = accounts db ! i)
         \<and> (?acs ! i)\<lparr>acc_balance := acc_balance (accounts db ! i)\<rparr> = accounts db ! i)"
    using accounts_handleSubmit [of parseFloat new_id fm db]
  proof (elim disjE exE)
    assume "?acs = accounts db"
    then show ?thesis by simp
  next
    fix uid nb
    assume "?acs = map (\<lambda>a. if acc_user_id a = uid \<and> acc_id a = f_accountId fm
                   then a\<lparr>acc_balance := nb\<rparr> else a) (accounts db)"
    then show ?thesis by simp
  qed
  then show ?thesis using others_handleSubmit [of parseFloat new_id fm db] by simp
qed

theorem handleSubmit_frame_witness:
  "accounts (fst (handleSubmit read_amount ''t1'' (a_form Form_expense ''150'' ''a1'')
               (a_store [an_account ''a1'' ''u1'' 1000 True, an_account ''a2'' ''u2'' 70 True] [] [])))
     = [an_account ''a1'' ''u1'' 850 True, an_account ''a2'' ''u2'' 70 True]
   \<and> (1::nat) < length (accounts (a_store [an_account ''a1'' ''u1'' 1000 True, an_account ''a2'' ''u2'' 70 True] [] []))
   \<and> acc_id (accounts (a_store [an_account ''a1'' ''u1'' 1000 True, an_account ''a2'' ''u2'' 70 True] [] []) ! 1)
        \<noteq> f_accountId (a_form Form_expense ''150'' ''a1'')
   \<and> accounts (fst (handleSubmit read_amount ''t1'' (a_form Form_expense ''150'' ''a1'')
               (a_store [an_account ''a1'' ''u1'' 1000 True, an_account ''a2'' ''u2'' 70 True] [] []))) ! 1
       = an_account ''a2'' ''u2'' 70 True"
  using handleSubmit_frame
    [of read_amount "''t1''" "a_form Form_expense ''150'' ''a1''"
        "a_store [an_account ''a1'' ''u1'' 1000 True, an_account ''a2'' ''u2'' 70 True] [] []"]
  by (simp add: a_store_def an_account_def a_form_def read_amount_def handleSubmit_def insert_transaction_def
        select_balance_single_def update_balance_def or_null_def Let_def)

end
